theory Spec2Isabelle
  imports Complex_Main "HOL-Library.Word"
begin

unbundle bit_operations_syntax

section \<open>The weather service: data model\<close>

subsection \<open>Go's float32\<close>

text \<open>
  A \<^verbatim>\<open>float32\<close> is its IEEE 754 binary32 bit pattern: one sign bit, eight exponent
  bits (bias 127) and 23 fraction bits. \<open>decode\<close> reads the pattern as a value: a NaN,
  an infinity, or a finite rational (both zeros decode to the rational 0, so they compare
  equal, as they do in Go).
\<close>

type_synonym float32 = "32 word"

datatype fval = NaN | NegInf | Finite rat | PosInf

definition sign_bit :: "float32 \<Rightarrow> bool" where
  "sign_bit x = bit x 31"

definition exponent :: "float32 \<Rightarrow> nat" where
  "exponent x = unat (take_bit 8 (drop_bit 23 x))"

definition fraction :: "float32 \<Rightarrow> nat" where
  "fraction x = unat (take_bit 23 x)"

definition magnitude :: "float32 \<Rightarrow> rat" where
  "magnitude x =
     (if exponent x = 0 then of_nat (fraction x) / 2 ^ 149
      else if exponent x < 150 then of_nat (2 ^ 23 + fraction x) / 2 ^ (150 - exponent x)
      else of_nat (2 ^ 23 + fraction x) * 2 ^ (exponent x - 150))"

definition decode :: "float32 \<Rightarrow> fval" where
  "decode x =
     (if exponent x = 255 then
        (if fraction x \<noteq> 0 then NaN else if sign_bit x then NegInf else PosInf)
      else Finite (if sign_bit x then - magnitude x else magnitude x))"

text \<open>
  Go's comparison operators on floats: every comparison with a NaN operand is false;
  otherwise the values are compared, with the infinities at the two ends.
\<close>

fun fval_lt :: "fval \<Rightarrow> fval \<Rightarrow> bool" where
  "fval_lt NaN _ = False"
| "fval_lt _ NaN = False"
| "fval_lt NegInf NegInf = False"
| "fval_lt NegInf _ = True"
| "fval_lt _ NegInf = False"
| "fval_lt PosInf _ = False"
| "fval_lt _ PosInf = True"
| "fval_lt (Finite p) (Finite q) = (p < q)"

fun fval_ge :: "fval \<Rightarrow> fval \<Rightarrow> bool" where
  "fval_ge NaN _ = False"
| "fval_ge _ NaN = False"
| "fval_ge _ NegInf = True"
| "fval_ge NegInf _ = False"
| "fval_ge PosInf _ = True"
| "fval_ge _ PosInf = False"
| "fval_ge (Finite p) (Finite q) = (q \<le> p)"

definition f32_lt :: "float32 \<Rightarrow> float32 \<Rightarrow> bool" where
  "f32_lt x y = fval_lt (decode x) (decode y)"

definition f32_ge :: "float32 \<Rightarrow> float32 \<Rightarrow> bool" where
  "f32_ge x y = fval_ge (decode x) (decode y)"

text \<open>
  The untyped constants \<^verbatim>\<open>-4, 0, 4, 8, 12, 16, 20, 24\<close> of \<^verbatim>\<open>getTemperature\<close>,
  converted to \<^verbatim>\<open>float32\<close> by the compiler. Each is exactly representable
  (lemma \<open>decode_thresholds\<close> below).
\<close>

definition f32_neg4 :: float32 where "f32_neg4 = 0xC0800000"
definition f32_0 :: float32 where "f32_0 = 0x00000000"
definition f32_4 :: float32 where "f32_4 = 0x40800000"
definition f32_8 :: float32 where "f32_8 = 0x41000000"
definition f32_12 :: float32 where "f32_12 = 0x41400000"
definition f32_16 :: float32 where "f32_16 = 0x41800000"
definition f32_20 :: float32 where "f32_20 = 0x41A00000"
definition f32_24 :: float32 where "f32_24 = 0x41C00000"

subsection \<open>The classifier (main.go, lines 99-122)\<close>

text \<open>\<^verbatim>\<open>func bw(x, a, b float32) bool { return x >= a && x < b }\<close>\<close>

definition bw :: "float32 \<Rightarrow> float32 \<Rightarrow> float32 \<Rightarrow> bool" where
  "bw x a b = (f32_ge x a \<and> f32_lt x b)"

text \<open>The expressionless \<^verbatim>\<open>switch\<close>: the first case whose condition holds returns.\<close>

definition getTemperature :: "float32 \<Rightarrow> string" where
  "getTemperature x =
     (if bw x f32_neg4 f32_0 then ''freezing''
      else if bw x f32_0 f32_4 then ''very cold''
      else if bw x f32_4 f32_8 then ''cold''
      else if bw x f32_8 f32_12 then ''not so cold''
      else if bw x f32_12 f32_16 then ''mild''
      else if bw x f32_16 f32_20 then ''less mild''
      else if bw x f32_20 f32_24 then ''getting hot''
      else ''HOT'')"

subsection \<open>The classifier as the specification tabulates it\<close>

text \<open>
  The table of section 4.3 of the specification, in its order, and a lookup that returns
  the label of the first half-open interval \<open>[a, b)\<close> holding the value, or the default
  label when no interval holds it. Only a finite value lies in an interval.
\<close>

definition temperature_table :: "(rat \<times> rat \<times> string) list" where
  "temperature_table =
     [(-4, 0, ''freezing''), (0, 4, ''very cold''), (4, 8, ''cold''),
      (8, 12, ''not so cold''), (12, 16, ''mild''), (16, 20, ''less mild''),
      (20, 24, ''getting hot'')]"

fun in_interval :: "fval \<Rightarrow> rat \<Rightarrow> rat \<Rightarrow> bool" where
  "in_interval (Finite r) a b = (a \<le> r \<and> r < b)"
| "in_interval NaN a b = False"
| "in_interval NegInf a b = False"
| "in_interval PosInf a b = False"

fun first_match :: "fval \<Rightarrow> (rat \<times> rat \<times> string) list \<Rightarrow> string" where
  "first_match v [] = ''HOT''"
| "first_match v ((a, b, l) # rest) = (if in_interval v a b then l else first_match v rest)"

definition classify_spec :: "fval \<Rightarrow> string" where
  "classify_spec v = first_match v temperature_table"

text \<open>The labels that occur in \<^verbatim>\<open>getTemperature\<close>, in source order.\<close>

definition temperature_labels :: "string list" where
  "temperature_labels =
     [''freezing'', ''very cold'', ''cold'', ''not so cold'', ''mild'', ''less mild'',
      ''getting hot'', ''HOT'']"

subsection \<open>Payloads and responses (main.go, lines 14-41)\<close>

text \<open>
  The structs of the source. \<^verbatim>\<open>json.Number\<close> is a string type. Field names carry the
  struct's name where two structs share a field name.
\<close>

record owmErrorMessage =
  owmError_Code :: string
  owmError_Message :: string

record weatherItem =
  weather_Main :: string

record mainReading =
  Temperature :: float32

record owmSuccessMessage =
  Weather :: "weatherItem list"
  owm_Main :: mainReading

record httpError =
  httpError_Status :: string
  httpError_Message :: string

record response =
  response_Status :: string
  Condition :: string
  TemperatureFeel :: string

text \<open>
  What \<^verbatim>\<open>json.Marshal\<close> is handed for each outbound struct: the fields under the names
  of their \<^verbatim>\<open>json\<close> tags, in declaration order.
\<close>

definition httpError_json :: "httpError \<Rightarrow> (string \<times> string) list" where
  "httpError_json h =
     [(''status'', httpError_Status h), (''message'', httpError_Message h)]"

definition response_json :: "response \<Rightarrow> (string \<times> string) list" where
  "response_json r =
     [(''status'', response_Status r), (''condition'', Condition r),
      (''temperature_feel'', TemperatureFeel r)]"

subsection \<open>The library and the outside world\<close>

text \<open>
  The standard-library calls of the source are parameters of the model. A call that
  returns \<^verbatim>\<open>(value, error)\<close> is a sum: \<open>Inl\<close> carries the text of a non-nil error,
  \<open>Inr\<close> the value.
  \<^item> \<open>ParseFloat\<close>: \<^verbatim>\<open>strconv.ParseFloat(s, 32)\<close>, whose result converts to
    \<^verbatim>\<open>float32\<close> without change;
  \<^item> \<open>Sprintf_f\<close>: the \<^verbatim>\<open>%f\<close> verb of \<^verbatim>\<open>fmt.Sprintf\<close>;
  \<^item> \<open>http_Get\<close>: \<^verbatim>\<open>http.Get(URL)\<close>; the response holds its status code and what
    \<^verbatim>\<open>io.ReadAll(resp.Body)\<close> returns;
  \<^item> \<open>Unmarshal_error\<close>, \<open>Unmarshal_success\<close>: \<^verbatim>\<open>json.Unmarshal\<close> into an
    \<^verbatim>\<open>owmErrorMessage\<close> and into an \<^verbatim>\<open>owmSuccessMessage\<close>;
  \<^item> \<open>Marshal\<close>: \<^verbatim>\<open>json.Marshal\<close> of a struct of string fields.
\<close>

record http_Response =
  StatusCode :: int
  ReadAll_Body :: "string + string"

record env =
  ParseFloat :: "string \<Rightarrow> string + float32"
  Sprintf_f :: "float32 \<Rightarrow> string"
  http_Get :: "string \<Rightarrow> string + http_Response"
  Unmarshal_error :: "string \<Rightarrow> string + owmErrorMessage"
  Unmarshal_success :: "string \<Rightarrow> string + owmSuccessMessage"
  Marshal :: "(string \<times> string) list \<Rightarrow> string + string"

text \<open>
  The state the code acts on: the \<^verbatim>\<open>http.ResponseWriter\<close> of the request (the status
  code sent, if any, and the bytes written), the lines printed by \<^verbatim>\<open>log.Println\<close>, and
  the number of upstream response bodies that are open (acquired by a successful
  \<^verbatim>\<open>http.Get\<close> and not yet closed).
\<close>

record state =
  wroteHeader :: "int option"
  written :: string
  logged :: "string list"
  open_bodies :: nat

text \<open>
  \<^verbatim>\<open>w.Write\<close>: when no header has been written yet, the status 200 is sent first. The
  source never calls \<^verbatim>\<open>w.WriteHeader\<close>.
\<close>

definition Write :: "state \<Rightarrow> string \<Rightarrow> state" where
  "Write w b =
     w\<lparr>wroteHeader := (case wroteHeader w of None \<Rightarrow> Some 200 | Some c \<Rightarrow> Some c),
       written := written w @ b\<rparr>"

definition Println :: "state \<Rightarrow> string \<Rightarrow> state" where
  "Println st line = st\<lparr>logged := logged st @ [line]\<rparr>"

definition Body_Close :: "state \<Rightarrow> state" where
  "Body_Close st = st\<lparr>open_bodies := open_bodies st - 1\<rparr>"

datatype panic = IndexOutOfRange | PanicError string

subsection \<open>The error response (main.go, lines 166-174)\<close>

definition e :: "env \<Rightarrow> state \<Rightarrow> string \<Rightarrow> state \<times> panic option" where
  "e env w msg =
     (case Marshal env
             (httpError_json \<lparr>httpError_Status = ''error'', httpError_Message = msg\<rparr>) of
        Inl err \<Rightarrow> (w, Some (PanicError err))
      | Inr hError \<Rightarrow> (Println (Write w hError) msg, None))"

subsection \<open>The upstream client (main.go, lines 124-164)\<close>

text \<open>Lines 125-129: the format string with its two \<^verbatim>\<open>%f\<close> verbs and its \<^verbatim>\<open>%s\<close> filled in.\<close>

definition weather_URL :: "env \<Rightarrow> float32 \<Rightarrow> float32 \<Rightarrow> string \<Rightarrow> string" where
  "weather_URL env latitude longitude key =
     ''https://api.openweathermap.org/data/2.5/weather?units=metric&lat=''
       @ Sprintf_f env latitude @ ''&lon='' @ Sprintf_f env longitude @ ''&appid='' @ key"

text \<open>
  The result is \<open>Inl\<close> of the returned error's message, or \<open>Inr\<close> of the payload. The
  \<^verbatim>\<open>defer resp.Body.Close()\<close> of line 142 is registered only after the body has been
  read: every return below it closes the body, the two returns above it do not.
\<close>

definition getWeather ::
    "env \<Rightarrow> float32 \<Rightarrow> float32 \<Rightarrow> string \<Rightarrow> state \<Rightarrow> (string + owmSuccessMessage) \<times> state" where
  "getWeather env longitude latitude key st =
     (case http_Get env (weather_URL env latitude longitude key) of
        Inl err \<Rightarrow> (Inl ''internal server error'', Println st (''get weather: '' @ err))
      | Inr resp \<Rightarrow>
          (let st1 = st\<lparr>open_bodies := open_bodies st + 1\<rparr> in
           case ReadAll_Body resp of
             Inl err \<Rightarrow>
               (Inl ''internal server error'', Println st1 (''read request body: '' @ err))
           | Inr body \<Rightarrow>
               (let (result, st2) =
                  (if StatusCode resp \<noteq> 200 then
                     (case Unmarshal_error env body of
                        Inl err \<Rightarrow>
                          (Inl ''internal server error'',
                           Println st1 (''unmarshall error request body: '' @ err))
                      | Inr oError \<Rightarrow>
                          (Inl (owmError_Message oError),
                           Println st1 (''non-200 response: '' @ owmError_Code oError @ '' ''
                             @ owmError_Message oError)))
                   else
                     (case Unmarshal_success env body of
                        Inl err \<Rightarrow>
                          (Inl ''internal server error'',
                           Println st1 (''unmarshall request body: '' @ err))
                      | Inr data \<Rightarrow> (Inr data, st1)))
                in (result, Body_Close st2))))"

subsection \<open>The request handler (main.go, lines 51-94)\<close>

text \<open>
  \<^verbatim>\<open>url.Values\<close> is a \<^verbatim>\<open>map[string][]string\<close>. Indexing an empty slice at 0 panics.
\<close>

type_synonym query = "string \<rightharpoonup> string list"

datatype 'a step = Panics panic | Fails string | Yields 'a

text \<open>
  Lines 52-76: the presence checks and the two parses. \<open>Fails msg\<close> stands for
  \<^verbatim>\<open>e(w, msg); return\<close>, which \<open>handler\<close> below carries out.
\<close>

definition validate :: "env \<Rightarrow> query \<Rightarrow> (float32 \<times> float32) step" where
  "validate env query =
     (case query ''lat'' of
        None \<Rightarrow> Fails ''missing query parameter: lat''
      | Some lat \<Rightarrow>
          (case query ''lon'' of
             None \<Rightarrow> Fails ''missing query parameter: lon''
           | Some lon \<Rightarrow>
               (case lat of
                  [] \<Rightarrow> Panics IndexOutOfRange
                | lat0 # _ \<Rightarrow>
                    (case ParseFloat env lat0 of
                       Inl err \<Rightarrow> Fails ''invalid value: lat''
                     | Inr latitude \<Rightarrow>
                         (case lon of
                            [] \<Rightarrow> Panics IndexOutOfRange
                          | lon0 # _ \<Rightarrow>
                              (case ParseFloat env lon0 of
                                 Inl err \<Rightarrow> Fails ''invalid value: lon''
                               | Inr longitude \<Rightarrow> Yields (latitude, longitude)))))))"

text \<open>Lines 78-93: the upstream call, the first weather entry, the response.\<close>

definition respond ::
    "env \<Rightarrow> string \<Rightarrow> float32 \<times> float32 \<Rightarrow> state \<Rightarrow> state \<times> panic option" where
  "respond env KEY coords w =
     (case coords of (latitude, longitude) \<Rightarrow>
      (case getWeather env longitude latitude KEY w of
         (Inl err, w1) \<Rightarrow> e env w1 err
       | (Inr data, w1) \<Rightarrow>
           (case Weather data of
              [] \<Rightarrow> (w1, Some IndexOutOfRange)
            | first # _ \<Rightarrow>
                (case Marshal env (response_json
                        \<lparr>response_Status = '''', Condition = weather_Main first,
                         TemperatureFeel = getTemperature (Temperature (owm_Main data))\<rparr>) of
                   Inl err \<Rightarrow> e env w1 err
                 | Inr respData \<Rightarrow> (Write w1 respData, None)))))"

definition handler :: "env \<Rightarrow> string \<Rightarrow> query \<Rightarrow> state \<Rightarrow> state \<times> panic option" where
  "handler env KEY query w =
     (case validate env query of
        Panics p \<Rightarrow> (w, Some p)
      | Fails msg \<Rightarrow> e env w msg
      | Yields coords \<Rightarrow> respond env KEY coords w)"

subsection \<open>An example environment\<close>

text \<open>
  A concrete library and upstream, on which the theorems below are instantiated.
  \<open>ParseFloat\<close> knows the decimal strings \<^verbatim>\<open>4\<close> and \<^verbatim>\<open>1000\<close>; the upstream answers
  every request with status 200 and a body, called \<^verbatim>\<open>clear\<close> here, that unmarshals to one
  weather entry \<^verbatim>\<open>Clear\<close> at 18.5 degrees; the body \<^verbatim>\<open>no weather\<close> unmarshals to a
  payload without weather entries, the body \<^verbatim>\<open>not found\<close> to the provider's error
  payload; the body \<^verbatim>\<open>mistyped\<close> stands for a JSON object whose \<^verbatim>\<open>weather\<close> member is
  a string: it does not unmarshal to a success payload, and as an error payload, having
  neither \<^verbatim>\<open>cod\<close> nor \<^verbatim>\<open>message\<close>, it unmarshals to an empty code and an empty
  message; \<open>Marshal\<close> renders an object of string fields as JSON text (for strings that
  need no escaping) and never fails.
\<close>

definition quote :: "string \<Rightarrow> string" where
  "quote s = CHR 0x22 # s @ [CHR 0x22]"

fun render_fields :: "(string \<times> string) list \<Rightarrow> string" where
  "render_fields [] = []"
| "render_fields [(k, v)] = quote k @ '':'' @ quote v"
| "render_fields ((k, v) # fs) = quote k @ '':'' @ quote v @ '','' @ render_fields fs"

definition render_object :: "(string \<times> string) list \<Rightarrow> string" where
  "render_object fs = ''{'' @ render_fields fs @ ''}''"

definition clear_payload :: owmSuccessMessage where
  "clear_payload =
     \<lparr>Weather = [\<lparr>weather_Main = ''Clear''\<rparr>], owm_Main = \<lparr>Temperature = 0x41940000\<rparr>\<rparr>"

definition example_env :: env where
  "example_env =
     \<lparr>ParseFloat = (\<lambda>s. if s = ''4'' then Inr f32_4 else if s = ''1000'' then Inr 0x447A0000
                         else Inl ''invalid syntax''),
      Sprintf_f = (\<lambda>x. if x = f32_4 then ''4.000000'' else ''1000.000000''),
      http_Get = (\<lambda>url. Inr \<lparr>StatusCode = 200, ReadAll_Body = Inr ''clear''\<rparr>),
      Unmarshal_error = (\<lambda>b. if b = ''not found''
                         then Inr \<lparr>owmError_Code = ''404'', owmError_Message = ''city not found''\<rparr>
                         else if b = ''mistyped''
                         then Inr \<lparr>owmError_Code = [], owmError_Message = []\<rparr>
                         else Inl ''unexpected end of JSON input''),
      Unmarshal_success = (\<lambda>b. if b = ''clear'' then Inr clear_payload
                           else if b = ''no weather''
                           then Inr \<lparr>Weather = [], owm_Main = \<lparr>Temperature = 0\<rparr>\<rparr>
                           else if b = ''mistyped''
                           then Inl ''json: cannot unmarshal string into Go struct field''
                           else Inl ''unexpected end of JSON input''),
      Marshal = (\<lambda>fs. Inr (render_object fs))\<rparr>"

text \<open>The example environment with another outcome of \<^verbatim>\<open>http.Get\<close>.\<close>

definition upstream :: "string + http_Response \<Rightarrow> env" where
  "upstream r = example_env\<lparr>http_Get := (\<lambda>url. r)\<rparr>"


text \<open>
  The success class of HTTP status codes, 200 to 299: what a success status is in HTTP,
  as against the one status, 200, that the source tests for.
\<close>

definition success_class :: "int \<Rightarrow> bool" where
  "success_class c = (200 \<le> c \<and> c < 300)"

definition example_query :: query where
  "example_query = [''lat'' \<mapsto> [''4''], ''lon'' \<mapsto> [''1000'']]"

definition initial_state :: state where
  "initial_state = \<lparr>wroteHeader = None, written = [], logged = [], open_bodies = 0\<rparr>"

section \<open>Properties of the classifier\<close>

lemmas decode_defs = decode_def magnitude_def exponent_def fraction_def sign_bit_def

lemmas threshold_defs =
  f32_neg4_def f32_0_def f32_4_def f32_8_def f32_12_def f32_16_def f32_20_def f32_24_def

lemma decode_thresholds:
  "decode f32_neg4 = Finite (-4)" "decode f32_0 = Finite 0" "decode f32_4 = Finite 4"
  "decode f32_8 = Finite 8" "decode f32_12 = Finite 12" "decode f32_16 = Finite 16"
  "decode f32_20 = Finite 20" "decode f32_24 = Finite 24"
  by (simp_all add: threshold_defs decode_defs)

lemma bw_in_interval:
  assumes "decode a = Finite p" and "decode b = Finite q"
  shows "bw x a b = in_interval (decode x) p q"
  using assms by (cases "decode x") (simp_all add: bw_def f32_ge_def f32_lt_def)

lemma getTemperature_table: "getTemperature x = classify_spec (decode x)"
  by (simp add: getTemperature_def classify_spec_def temperature_table_def
      bw_in_interval [OF decode_thresholds(1) decode_thresholds(2)]
      bw_in_interval [OF decode_thresholds(2) decode_thresholds(3)]
      bw_in_interval [OF decode_thresholds(3) decode_thresholds(4)]
      bw_in_interval [OF decode_thresholds(4) decode_thresholds(5)]
      bw_in_interval [OF decode_thresholds(5) decode_thresholds(6)]
      bw_in_interval [OF decode_thresholds(6) decode_thresholds(7)]
      bw_in_interval [OF decode_thresholds(7) decode_thresholds(8)])

lemma decode_NaN_iff: "decode x = NaN \<longleftrightarrow> exponent x = 255 \<and> fraction x \<noteq> 0"
  by (simp add: decode_def)

lemma classify_spec_NaN: "classify_spec NaN = ''HOT''"
  by (simp add: classify_spec_def temperature_table_def)

text \<open>
  C9: for a NaN temperature input (exponent bits all ones, fraction not zero) every
  interval test \<^verbatim>\<open>x >= a && x < b\<close> is false, whatever the bounds, and
  \<^verbatim>\<open>getTemperature\<close> returns the default label \<^verbatim>\<open>"HOT"\<close>.
\<close>

theorem getTemperature_NaN:
  assumes "exponent x = 255" and "fraction x \<noteq> 0"
  shows "decode x = NaN \<and> \<not> bw x a b \<and> getTemperature x = ''HOT''"
proof -
  have n: "decode x = NaN"
    using assms by (simp add: decode_NaN_iff)
  have "\<not> bw x a b"
    by (simp add: bw_def f32_ge_def n)
  moreover have "getTemperature x = ''HOT''"
    by (simp add: getTemperature_table classify_spec_NaN n)
  ultimately show ?thesis
    using n by simp
qed

theorem getTemperature_NaN_witness:
  "exponent 0x7FC00000 = 255 \<and> fraction 0x7FC00000 \<noteq> 0
   \<and> \<not> bw 0x7FC00000 f32_20 f32_24 \<and> getTemperature 0x7FC00000 = ''HOT''"
proof -
  have h: "exponent 0x7FC00000 = 255" "fraction 0x7FC00000 \<noteq> 0"
    by (simp_all add: exponent_def fraction_def)
  show ?thesis
    using h getTemperature_NaN [OF h] by simp
qed

lemma classify_spec_values:
  "classify_spec (Finite (-4)) = ''freezing''" "classify_spec (Finite 0) = ''very cold''"
  "classify_spec (Finite 4) = ''cold''" "classify_spec (Finite 8) = ''not so cold''"
  "classify_spec (Finite 12) = ''mild''" "classify_spec (Finite 16) = ''less mild''"
  "classify_spec (Finite 20) = ''getting hot''" "classify_spec (Finite 24) = ''HOT''"
  by (simp_all add: classify_spec_def temperature_table_def)

lemma getTemperature_thresholds:
  "getTemperature f32_neg4 = ''freezing''" "getTemperature f32_0 = ''very cold''"
  "getTemperature f32_4 = ''cold''" "getTemperature f32_8 = ''not so cold''"
  "getTemperature f32_12 = ''mild''" "getTemperature f32_16 = ''less mild''"
  "getTemperature f32_20 = ''getting hot''" "getTemperature f32_24 = ''HOT''"
  by (simp_all only: getTemperature_table decode_thresholds classify_spec_values)

lemma first_match_label:
  "first_match v tbl \<in> insert ''HOT'' (set (map (\<lambda>(a, b, l). l) tbl))"
  by (induction v tbl rule: first_match.induct) auto

lemma table_labels:
  "insert ''HOT'' (set (map (\<lambda>(a, b, l). l) temperature_table)) = set temperature_labels"
  by (auto simp: temperature_table_def temperature_labels_def)

lemma getTemperature_in_labels: "getTemperature x \<in> set temperature_labels"
  unfolding getTemperature_table classify_spec_def
  using first_match_label [of "decode x" temperature_table] by (simp only: table_labels)

lemma range_getTemperature: "range getTemperature = set temperature_labels"
proof
  show "range getTemperature \<subseteq> set temperature_labels"
    using getTemperature_in_labels by blast
  have "''freezing'' \<in> range getTemperature" "''very cold'' \<in> range getTemperature"
    "''cold'' \<in> range getTemperature" "''not so cold'' \<in> range getTemperature"
    "''mild'' \<in> range getTemperature" "''less mild'' \<in> range getTemperature"
    "''getting hot'' \<in> range getTemperature" "''HOT'' \<in> range getTemperature"
    by (rule range_eqI [where f = getTemperature, OF getTemperature_thresholds(1) [symmetric]],
        rule range_eqI [where f = getTemperature, OF getTemperature_thresholds(2) [symmetric]],
        rule range_eqI [where f = getTemperature, OF getTemperature_thresholds(3) [symmetric]],
        rule range_eqI [where f = getTemperature, OF getTemperature_thresholds(4) [symmetric]],
        rule range_eqI [where f = getTemperature, OF getTemperature_thresholds(5) [symmetric]],
        rule range_eqI [where f = getTemperature, OF getTemperature_thresholds(6) [symmetric]],
        rule range_eqI [where f = getTemperature, OF getTemperature_thresholds(7) [symmetric]],
        rule range_eqI [where f = getTemperature, OF getTemperature_thresholds(8) [symmetric]])
  then show "set temperature_labels \<subseteq> range getTemperature"
    by (simp only: temperature_labels_def list.set insert_subset empty_subsetI simp_thms)
qed

lemma distinct_temperature_labels: "distinct temperature_labels"
  by (simp add: temperature_labels_def)

lemma length_temperature_labels: "length temperature_labels = 8"
  by (simp add: temperature_labels_def)

lemma card_range_getTemperature: "card (range getTemperature) = 8"
  by (simp add: range_getTemperature distinct_card [OF distinct_temperature_labels]
      length_temperature_labels)

lemma decode_examples:
  "decode 0xC0800000 = Finite (-4)" "decode 0x00000000 = Finite 0"
  "decode 0x41BFFDF4 = Finite (3145597 / 131072)" "decode 0x41C00000 = Finite 24"
  "decode 0xC2C80000 = Finite (-100)"
  by (simp_all add: decode_defs)

lemma nearest_23_999:
  "decode 0x41BFFDF3 = Finite (12582387 / 524288)" "decode 0x41BFFDF5 = Finite (12582389 / 524288)"
  "\<bar>3145597 / 131072 - 23999 / 1000\<bar> < \<bar>12582387 / 524288 - 23999 / (1000::rat)\<bar>"
  "\<bar>3145597 / 131072 - 23999 / 1000\<bar> < \<bar>12582389 / 524288 - 23999 / (1000::rat)\<bar>"
  by (simp_all add: decode_defs)

lemma classify_spec_HOT_iff: "classify_spec v = ''HOT'' \<longleftrightarrow> \<not> in_interval v (-4) 24"
  by (cases v) (auto simp: classify_spec_def temperature_table_def)

lemma out_of_range_not_in_interval:
  "fval_lt v (Finite (-4)) \<or> fval_ge v (Finite 24) \<Longrightarrow> \<not> in_interval v (-4) 24"
  by (cases v) auto

lemma getTemperature_18_5: "getTemperature 0x41940000 = ''less mild''"
proof -
  have "decode 0x41940000 = Finite (37 / 2)"
    by (simp add: decode_defs)
  then show ?thesis
    by (simp add: getTemperature_table classify_spec_def temperature_table_def)
qed

text \<open>
  C1: for every \<^verbatim>\<open>float32\<close> temperature \<open>t\<close>, \<^verbatim>\<open>getTemperature(t)\<close> is the label of the
  first half-open interval \<open>[a, b)\<close> that holds \<open>t\<close>, in the table order freezing
  \<open>[-4, 0)\<close>, very cold \<open>[0, 4)\<close>, cold \<open>[4, 8)\<close>, not so cold \<open>[8, 12)\<close>, mild
  \<open>[12, 16)\<close>, less mild \<open>[16, 20)\<close>, getting hot \<open>[20, 24)\<close>, and \<^verbatim>\<open>"HOT"\<close> for any
  other \<open>t\<close>: the result is \<^verbatim>\<open>"HOT"\<close> exactly when \<open>t\<close> is not in \<open>[-4, 24)\<close>, so
  whenever \<open>t < -4\<close> or \<open>t \<ge> 24\<close> (and for a NaN, which no interval holds). At the
  \<^verbatim>\<open>float32\<close> values of the literals \<^verbatim>\<open>-4.0\<close>, \<^verbatim>\<open>0.0\<close>, \<^verbatim>\<open>23.999\<close>, \<^verbatim>\<open>24.0\<close> and
  \<^verbatim>\<open>-100.0\<close> the labels are freezing, very cold, getting hot, HOT and HOT. The literal
  \<^verbatim>\<open>23.999\<close> is the pattern \<open>0x41BFFDF4\<close>, the \<^verbatim>\<open>float32\<close> nearest to it
  (\<open>nearest_23_999\<close>).
\<close>

theorem getTemperature_intervals:
  "getTemperature t = classify_spec (decode t)
   \<and> (getTemperature t = ''HOT'' \<longleftrightarrow> \<not> in_interval (decode t) (-4) 24)
   \<and> (fval_lt (decode t) (Finite (-4)) \<or> fval_ge (decode t) (Finite 24)
        \<longrightarrow> getTemperature t = ''HOT'')
   \<and> decode 0xC0800000 = Finite (-4) \<and> getTemperature 0xC0800000 = ''freezing''
   \<and> decode 0x00000000 = Finite 0 \<and> getTemperature 0x00000000 = ''very cold''
   \<and> decode 0x41BFFDF4 = Finite (3145597 / 131072)
   \<and> getTemperature 0x41BFFDF4 = ''getting hot''
   \<and> decode 0x41C00000 = Finite 24 \<and> getTemperature 0x41C00000 = ''HOT''
   \<and> decode 0xC2C80000 = Finite (-100) \<and> getTemperature 0xC2C80000 = ''HOT''"
proof -
  have "getTemperature t = ''HOT'' \<longleftrightarrow> \<not> in_interval (decode t) (-4) 24"
    by (simp only: getTemperature_table classify_spec_HOT_iff)
  moreover have "getTemperature 0xC0800000 = ''freezing''" "getTemperature 0x00000000 = ''very cold''"
    "getTemperature 0x41BFFDF4 = ''getting hot''" "getTemperature 0x41C00000 = ''HOT''"
    "getTemperature 0xC2C80000 = ''HOT''"
    by (simp_all add: getTemperature_table decode_examples classify_spec_def temperature_table_def)
  ultimately show ?thesis
    using out_of_range_not_in_interval [of "decode t"]
    by (simp only: getTemperature_table decode_examples simp_thms) blast
qed

theorem getTemperature_intervals_witness:
  "fval_ge (decode 0x42C80000) (Finite 24) \<and> getTemperature 0x42C80000 = ''HOT''"
proof -
  have d: "decode 0x42C80000 = Finite 100"
    by (simp add: decode_defs)
  have h: "fval_lt (decode 0x42C80000) (Finite (-4)) \<or> fval_ge (decode 0x42C80000) (Finite 24)"
    by (simp add: d)
  have "getTemperature 0x42C80000 = ''HOT''"
    using getTemperature_intervals [of "0x42C80000"] h by blast
  then show ?thesis
    by (simp add: d)
qed

text \<open>
  C2, as stated, asks for a range of exactly nine distinct labels. The switch has seven
  cases and a default, and the range of \<^verbatim>\<open>getTemperature\<close> does not have nine elements.
\<close>

theorem getTemperature_range_not_nine: "card (range getTemperature) \<noteq> 9"
  by (simp add: card_range_getTemperature)

text \<open>
  C2, amended: \<^verbatim>\<open>getTemperature\<close> is a function of its argument alone, defined on every
  \<^verbatim>\<open>float32\<close>; its result is always one of eight fixed labels, the eight labels are
  distinct, and each of them is returned for some input: the range has exactly eight
  elements.
\<close>

theorem getTemperature_eight_labels:
  "getTemperature t \<in> set temperature_labels
   \<and> range getTemperature = set temperature_labels
   \<and> distinct temperature_labels \<and> length temperature_labels = 8
   \<and> card (range getTemperature) = 8"
  using getTemperature_in_labels [of t] range_getTemperature distinct_temperature_labels
    length_temperature_labels card_range_getTemperature
  by (intro conjI)

section \<open>Properties of the request validation\<close>

lemma validate_example_query:
  assumes "ParseFloat env = ParseFloat example_env"
  shows "validate env example_query = Yields (f32_4, 0x447A0000)"
  by (simp add: validate_def example_query_def assms example_env_def)

text \<open>
  C3: for every query mapping, when \<^verbatim>\<open>lat\<close> is absent the validation fails with
  \<^verbatim>\<open>missing query parameter: lat\<close>; else when \<^verbatim>\<open>lon\<close> is absent, with
  \<^verbatim>\<open>missing query parameter: lon\<close>; else when the first value of \<^verbatim>\<open>lat\<close> does not parse,
  with \<^verbatim>\<open>invalid value: lat\<close>; else when the first value of \<^verbatim>\<open>lon\<close> does not parse,
  with \<^verbatim>\<open>invalid value: lon\<close>; otherwise it yields the two parsed values, whatever they
  are (no bounds are checked). A failure's message is what the handler passes to
  \<^verbatim>\<open>e\<close>. A key that is present in a mapping parsed from a URL has at least one value,
  which the patterns \<open>lat0 # lats\<close> and \<open>lon0 # lons\<close> express.
\<close>

theorem validate_messages:
  "(query ''lat'' = None \<longrightarrow> validate env query = Fails ''missing query parameter: lat'')
   \<and> (query ''lat'' = Some lat \<and> query ''lon'' = None
        \<longrightarrow> validate env query = Fails ''missing query parameter: lon'')
   \<and> (query ''lat'' = Some (lat0 # lats) \<and> query ''lon'' = Some lon
        \<and> ParseFloat env lat0 = Inl err
        \<longrightarrow> validate env query = Fails ''invalid value: lat'')
   \<and> (query ''lat'' = Some (lat0 # lats) \<and> query ''lon'' = Some (lon0 # lons)
        \<and> ParseFloat env lat0 = Inr latitude \<and> ParseFloat env lon0 = Inl err
        \<longrightarrow> validate env query = Fails ''invalid value: lon'')
   \<and> (query ''lat'' = Some (lat0 # lats) \<and> query ''lon'' = Some (lon0 # lons)
        \<and> ParseFloat env lat0 = Inr latitude \<and> ParseFloat env lon0 = Inr longitude
        \<longrightarrow> validate env query = Yields (latitude, longitude))
   \<and> (validate env query = Fails msg \<longrightarrow> handler env KEY query w = e env w msg)"
  by (simp add: validate_def handler_def)

theorem validate_messages_witness:
  "validate example_env Map.empty = Fails ''missing query parameter: lat''
   \<and> validate example_env [''lat'' \<mapsto> [''4'']] = Fails ''missing query parameter: lon''
   \<and> validate example_env [''lat'' \<mapsto> [''abc''], ''lon'' \<mapsto> [''5'']] = Fails ''invalid value: lat''
   \<and> validate example_env [''lat'' \<mapsto> [''4''], ''lon'' \<mapsto> [''x'']] = Fails ''invalid value: lon''
   \<and> validate example_env example_query = Yields (f32_4, 0x447A0000)
   \<and> decode 0x447A0000 = Finite 1000
   \<and> handler example_env ''k'' Map.empty initial_state
       = e example_env initial_state ''missing query parameter: lat''"
proof -
  note t = validate_messages [where env = example_env]
  have 1: "validate example_env Map.empty = Fails ''missing query parameter: lat''"
    using t [of Map.empty] by simp
  have 2: "validate example_env [''lat'' \<mapsto> [''4'']] = Fails ''missing query parameter: lon''"
    using t [of "[''lat'' \<mapsto> [''4'']]" "[''4'']"] by simp
  have 3: "validate example_env [''lat'' \<mapsto> [''abc''], ''lon'' \<mapsto> [''5'']]
      = Fails ''invalid value: lat''"
    using t [of "[''lat'' \<mapsto> [''abc''], ''lon'' \<mapsto> [''5'']]" _ "''abc''" "[]" "[''5'']"
        "''invalid syntax''"]
    by (simp add: example_env_def)
  have 4: "validate example_env [''lat'' \<mapsto> [''4''], ''lon'' \<mapsto> [''x'']]
      = Fails ''invalid value: lon''"
    using t [of "[''lat'' \<mapsto> [''4''], ''lon'' \<mapsto> [''x'']]" _ "''4''" "[]" _ "''invalid syntax''"
        "''x''" "[]" f32_4]
    by (simp add: example_env_def)
  have 5: "validate example_env example_query = Yields (f32_4, 0x447A0000)"
    using t [of example_query _ "''4''" "[]" _ _ "''1000''" "[]" f32_4 "0x447A0000"]
    by (simp add: example_env_def example_query_def)
  have 6: "handler example_env ''k'' Map.empty initial_state
       = e example_env initial_state ''missing query parameter: lat''"
    using t [of Map.empty _ _ _ _ _ _ _ _ _ "''missing query parameter: lat''" "''k''" initial_state] 1
    by simp
  have 7: "decode 0x447A0000 = Finite 1000"
    by (simp add: decode_defs)
  from 1 2 3 4 5 6 7 show ?thesis
    by (intro conjI)
qed

text \<open>
  C10: both presence checks come before any parsing: when the value of \<^verbatim>\<open>lat\<close> is
  present but does not parse and \<^verbatim>\<open>lon\<close> is absent, the error message is
  \<^verbatim>\<open>missing query parameter: lon\<close>, not \<^verbatim>\<open>invalid value: lat\<close>.
\<close>

theorem presence_before_parsing:
  "query ''lat'' = Some (lat0 # lats) \<and> ParseFloat env lat0 = Inl err \<and> query ''lon'' = None
   \<longrightarrow> validate env query = Fails ''missing query parameter: lon''
     \<and> validate env query \<noteq> Fails ''invalid value: lat''
     \<and> handler env KEY query w = e env w ''missing query parameter: lon''"
  by (simp add: validate_def handler_def)

theorem presence_before_parsing_witness:
  "ParseFloat example_env ''abc'' = Inl ''invalid syntax''
   \<and> validate example_env [''lat'' \<mapsto> [''abc'']] = Fails ''missing query parameter: lon''
   \<and> handler example_env ''k'' [''lat'' \<mapsto> [''abc'']] initial_state
       = e example_env initial_state ''missing query parameter: lon''"
proof -
  have p: "ParseFloat example_env ''abc'' = Inl ''invalid syntax''"
    by (simp add: example_env_def)
  show ?thesis
    using presence_before_parsing [of "[''lat'' \<mapsto> [''abc'']]" "''abc''" "[]" example_env
        "''invalid syntax''" "''k''" initial_state] p
    by simp
qed

section \<open>Properties of the upstream client\<close>

lemma getWeather_writer_unchanged:
  "wroteHeader (snd (getWeather env longitude latitude key st)) = wroteHeader st
   \<and> written (snd (getWeather env longitude latitude key st)) = written st"
  by (simp add: getWeather_def Let_def Println_def Body_Close_def
      split: sum.splits prod.splits)

lemma getWeather_example:
  assumes "http_Get env = (\<lambda>url. Inr \<lparr>StatusCode = 200, ReadAll_Body = Inr b\<rparr>)"
    and "Unmarshal_success env b = Inr data"
  shows "getWeather env longitude latitude key initial_state = (Inr data, initial_state)"
  by (simp add: getWeather_def assms Body_Close_def initial_state_def)

lemma getWeather_example_404:
  assumes "http_Get env = (\<lambda>url. Inr \<lparr>StatusCode = 404, ReadAll_Body = Inr b\<rparr>)"
    and "Unmarshal_error env b = Inr oError"
  shows "fst (getWeather env longitude latitude key initial_state) = Inl (owmError_Message oError)"
  by (simp add: getWeather_def assms)

lemma getWeather_closes_body_after_read:
  assumes "http_Get env (weather_URL env latitude longitude key) = Inr resp"
    and "ReadAll_Body resp = Inr body"
  shows "open_bodies (snd (getWeather env longitude latitude key st)) = open_bodies st"
  using assms
  by (simp add: getWeather_def Let_def Println_def Body_Close_def split: sum.splits)

text \<open>
  C4, as stated, speaks of a success and a non-success HTTP status; the source tests for
  the one status 200 (\<^verbatim>\<open>http.StatusOK\<close>). At the status 201, a success status, with a
  body that does not unmarshal to a success payload and does unmarshal to an error payload,
  \<^verbatim>\<open>getWeather\<close> returns that payload's message (here the empty one), not
  \<^verbatim>\<open>internal server error\<close>.
\<close>

theorem getWeather_status_201_counterexample:
  "success_class 201
   \<and> Unmarshal_success (upstream (Inr \<lparr>StatusCode = 201, ReadAll_Body = Inr ''mistyped''\<rparr>))
        ''mistyped'' = Inl ''json: cannot unmarshal string into Go struct field''
   \<and> fst (getWeather (upstream (Inr \<lparr>StatusCode = 201, ReadAll_Body = Inr ''mistyped''\<rparr>))
        f32_4 f32_4 ''k'' initial_state) = Inl []
   \<and> fst (getWeather (upstream (Inr \<lparr>StatusCode = 201, ReadAll_Body = Inr ''mistyped''\<rparr>))
        f32_4 f32_4 ''k'' initial_state) \<noteq> Inl ''internal server error''"
  by (simp add: success_class_def getWeather_def upstream_def example_env_def)

text \<open>
  C4, amended: the error \<^verbatim>\<open>getWeather\<close> returns. When \<^verbatim>\<open>http.Get\<close> fails, or reading
  the body fails, the message is \<^verbatim>\<open>internal server error\<close>, whatever the cause. When the
  status is other than 200 and the body unmarshals to an error payload, the message is the
  provider's message, whatever the provider's code; when that body does not unmarshal, it
  is \<^verbatim>\<open>internal server error\<close>. When the status is 200 and the body does not unmarshal
  to a success payload, it is \<^verbatim>\<open>internal server error\<close>.
\<close>

theorem getWeather_error_translation:
  "(http_Get env (weather_URL env latitude longitude key) = Inl cause
      \<longrightarrow> fst (getWeather env longitude latitude key st) = Inl ''internal server error'')
   \<and> (http_Get env (weather_URL env latitude longitude key) = Inr resp
        \<and> ReadAll_Body resp = Inl cause
      \<longrightarrow> fst (getWeather env longitude latitude key st) = Inl ''internal server error'')
   \<and> (http_Get env (weather_URL env latitude longitude key) = Inr resp
        \<and> ReadAll_Body resp = Inr body \<and> StatusCode resp \<noteq> 200
        \<and> Unmarshal_error env body = Inr oError
      \<longrightarrow> fst (getWeather env longitude latitude key st) = Inl (owmError_Message oError))
   \<and> (http_Get env (weather_URL env latitude longitude key) = Inr resp
        \<and> ReadAll_Body resp = Inr body \<and> StatusCode resp \<noteq> 200
        \<and> Unmarshal_error env body = Inl cause
      \<longrightarrow> fst (getWeather env longitude latitude key st) = Inl ''internal server error'')
   \<and> (http_Get env (weather_URL env latitude longitude key) = Inr resp
        \<and> ReadAll_Body resp = Inr body \<and> StatusCode resp = 200
        \<and> Unmarshal_success env body = Inl cause
      \<longrightarrow> fst (getWeather env longitude latitude key st) = Inl ''internal server error'')"
  by (simp add: getWeather_def Let_def)

theorem getWeather_error_translation_witness:
  "fst (getWeather (upstream (Inl ''dial tcp: connection refused'')) f32_4 f32_4 ''k'' initial_state)
     = Inl ''internal server error''
   \<and> fst (getWeather (upstream (Inr \<lparr>StatusCode = 200, ReadAll_Body = Inl ''unexpected EOF''\<rparr>))
        f32_4 f32_4 ''k'' initial_state) = Inl ''internal server error''
   \<and> fst (getWeather (upstream (Inr \<lparr>StatusCode = 404, ReadAll_Body = Inr ''not found''\<rparr>))
        f32_4 f32_4 ''k'' initial_state) = Inl ''city not found''
   \<and> fst (getWeather (upstream (Inr \<lparr>StatusCode = 502, ReadAll_Body = Inr ''<html>''\<rparr>))
        f32_4 f32_4 ''k'' initial_state) = Inl ''internal server error''
   \<and> fst (getWeather (upstream (Inr \<lparr>StatusCode = 200, ReadAll_Body = Inr ''<html>''\<rparr>))
        f32_4 f32_4 ''k'' initial_state) = Inl ''internal server error''"
proof -
  note t = getWeather_error_translation [where latitude = f32_4 and longitude = f32_4
      and key = "''k''" and st = initial_state]
  have 1: "fst (getWeather (upstream (Inl ''dial tcp: connection refused'')) f32_4 f32_4 ''k''
      initial_state) = Inl ''internal server error''"
    using t [of "upstream (Inl ''dial tcp: connection refused'')" "''dial tcp: connection refused''"]
    by (simp add: upstream_def)
  have 2: "fst (getWeather (upstream (Inr \<lparr>StatusCode = 200, ReadAll_Body = Inl ''unexpected EOF''\<rparr>))
        f32_4 f32_4 ''k'' initial_state) = Inl ''internal server error''"
    using t [of "upstream (Inr \<lparr>StatusCode = 200, ReadAll_Body = Inl ''unexpected EOF''\<rparr>)"
        "''unexpected EOF''" "\<lparr>StatusCode = 200, ReadAll_Body = Inl ''unexpected EOF''\<rparr>"]
    by (simp add: upstream_def)
  have 3: "fst (getWeather (upstream (Inr \<lparr>StatusCode = 404, ReadAll_Body = Inr ''not found''\<rparr>))
        f32_4 f32_4 ''k'' initial_state) = Inl ''city not found''"
    using t [of "upstream (Inr \<lparr>StatusCode = 404, ReadAll_Body = Inr ''not found''\<rparr>)" _
        "\<lparr>StatusCode = 404, ReadAll_Body = Inr ''not found''\<rparr>" "''not found''"
        "\<lparr>owmError_Code = ''404'', owmError_Message = ''city not found''\<rparr>"]
    by (simp add: upstream_def example_env_def)
  have 4: "fst (getWeather (upstream (Inr \<lparr>StatusCode = 502, ReadAll_Body = Inr ''<html>''\<rparr>))
        f32_4 f32_4 ''k'' initial_state) = Inl ''internal server error''"
    using t [of "upstream (Inr \<lparr>StatusCode = 502, ReadAll_Body = Inr ''<html>''\<rparr>)"
        "''unexpected end of JSON input''"
        "\<lparr>StatusCode = 502, ReadAll_Body = Inr ''<html>''\<rparr>" "''<html>''"]
    by (simp add: upstream_def example_env_def)
  have 5: "fst (getWeather (upstream (Inr \<lparr>StatusCode = 200, ReadAll_Body = Inr ''<html>''\<rparr>))
        f32_4 f32_4 ''k'' initial_state) = Inl ''internal server error''"
    using t [of "upstream (Inr \<lparr>StatusCode = 200, ReadAll_Body = Inr ''<html>''\<rparr>)"
        "''unexpected end of JSON input''"
        "\<lparr>StatusCode = 200, ReadAll_Body = Inr ''<html>''\<rparr>" "''<html>''"]
    by (simp add: upstream_def example_env_def)
  from 1 2 3 4 5 show ?thesis
    by (intro conjI)
qed

text \<open>
  C8 asks that the upstream response body be closed on every exit path on which it was
  acquired. On the path where \<^verbatim>\<open>http.Get\<close> succeeds and \<^verbatim>\<open>io.ReadAll\<close> fails,
  \<^verbatim>\<open>getWeather\<close> returns at line 140, before the \<^verbatim>\<open>defer resp.Body.Close()\<close> of
  line 142: the body stays open, one more than before the call. (After a successful read,
  every return closes it: \<open>getWeather_closes_body_after_read\<close>.)
\<close>

theorem getWeather_read_failure_leaks_body:
  "http_Get env (weather_URL env latitude longitude key) = Inr resp
     \<and> ReadAll_Body resp = Inl cause
   \<longrightarrow> fst (getWeather env longitude latitude key st) = Inl ''internal server error''
     \<and> open_bodies (snd (getWeather env longitude latitude key st)) = open_bodies st + 1"
  by (simp add: getWeather_def Let_def Println_def)

theorem getWeather_read_failure_leaks_body_witness:
  "open_bodies initial_state = 0
   \<and> open_bodies (snd (getWeather
        (upstream (Inr \<lparr>StatusCode = 200, ReadAll_Body = Inl ''unexpected EOF''\<rparr>))
        f32_4 f32_4 ''k'' initial_state)) = 1"
  using getWeather_read_failure_leaks_body
    [of "upstream (Inr \<lparr>StatusCode = 200, ReadAll_Body = Inl ''unexpected EOF''\<rparr>)"
      f32_4 f32_4 "''k''" "\<lparr>StatusCode = 200, ReadAll_Body = Inl ''unexpected EOF''\<rparr>"
      "''unexpected EOF''" initial_state]
  by (simp add: upstream_def initial_state_def)

section \<open>Properties of the request handler\<close>

lemma e_marshalled:
  assumes "Marshal env [(''status'', ''error''), (''message'', msg)] = Inr body"
  shows "e env w msg = (Println (Write w body) msg, None)"
  using assms by (simp add: e_def httpError_json_def)

lemma Write_fresh:
  assumes "wroteHeader w = None" and "written w = []"
  shows "wroteHeader (Write w body) = Some 200" and "written (Write w body) = body"
  using assms by (simp_all add: Write_def)

lemma Println_writer:
  "wroteHeader (Println w l) = wroteHeader w" "written (Println w l) = written w"
  by (simp_all add: Println_def)

text \<open>
  C5: for a request on whose writer nothing has been written yet. On success (the query
  validates, the upstream call returns a payload with a first weather entry) the handler
  serializes exactly the three fields \<^verbatim>\<open>status\<close>, \<^verbatim>\<open>condition\<close>, \<^verbatim>\<open>temperature_feel\<close>,
  with the status empty, the condition the first entry's label and the temperature feel
  the classifier's output, and writes the serialized bytes. On a validation failure and on
  an upstream failure with message \<open>msg\<close> it serializes exactly the two fields
  \<^verbatim>\<open>status\<close>, equal to \<^verbatim>\<open>error\<close>, and \<^verbatim>\<open>message\<close>, equal to \<open>msg\<close>, and writes the
  serialized bytes. On all three paths the status code sent is 200.
\<close>

theorem handler_response_bodies:
  assumes "wroteHeader w = None" and "written w = []"
  shows
  "(validate env query = Yields (latitude, longitude)
      \<and> getWeather env longitude latitude KEY w = (Inr data, w1)
      \<and> Weather data = first # rest
      \<and> Marshal env [(''status'', ''''), (''condition'', weather_Main first),
            (''temperature_feel'', getTemperature (Temperature (owm_Main data)))] = Inr body
    \<longrightarrow> snd (handler env KEY query w) = None
      \<and> written (fst (handler env KEY query w)) = body
      \<and> wroteHeader (fst (handler env KEY query w)) = Some 200)
   \<and> (validate env query = Fails msg
      \<and> Marshal env [(''status'', ''error''), (''message'', msg)] = Inr body
    \<longrightarrow> snd (handler env KEY query w) = None
      \<and> written (fst (handler env KEY query w)) = body
      \<and> wroteHeader (fst (handler env KEY query w)) = Some 200)
   \<and> (validate env query = Yields (latitude, longitude)
      \<and> fst (getWeather env longitude latitude KEY w) = Inl msg
      \<and> Marshal env [(''status'', ''error''), (''message'', msg)] = Inr body
    \<longrightarrow> snd (handler env KEY query w) = None
      \<and> written (fst (handler env KEY query w)) = body
      \<and> wroteHeader (fst (handler env KEY query w)) = Some 200)"
proof (intro conjI impI)
  assume a: "validate env query = Yields (latitude, longitude)
      \<and> getWeather env longitude latitude KEY w = (Inr data, w1)
      \<and> Weather data = first # rest
      \<and> Marshal env [(''status'', ''''), (''condition'', weather_Main first),
            (''temperature_feel'', getTemperature (Temperature (owm_Main data)))] = Inr body"
  have w1: "wroteHeader w1 = None" "written w1 = []"
    using a assms getWeather_writer_unchanged [of env longitude latitude KEY w] by simp_all
  have h: "handler env KEY query w = (Write w1 body, None)"
    using a by (simp add: handler_def respond_def response_json_def)
  show "snd (handler env KEY query w) = None"
    "written (fst (handler env KEY query w)) = body"
    "wroteHeader (fst (handler env KEY query w)) = Some 200"
    by (simp_all add: h Write_fresh [OF w1])
next
  assume a: "validate env query = Fails msg
      \<and> Marshal env [(''status'', ''error''), (''message'', msg)] = Inr body"
  have h: "handler env KEY query w = (Println (Write w body) msg, None)"
    using a by (simp add: handler_def e_marshalled)
  show "snd (handler env KEY query w) = None"
    "written (fst (handler env KEY query w)) = body"
    "wroteHeader (fst (handler env KEY query w)) = Some 200"
    by (simp_all add: h Println_writer Write_fresh [OF assms])
next
  assume a: "validate env query = Yields (latitude, longitude)
      \<and> fst (getWeather env longitude latitude KEY w) = Inl msg
      \<and> Marshal env [(''status'', ''error''), (''message'', msg)] = Inr body"
  obtain w1 where g: "getWeather env longitude latitude KEY w = (Inl msg, w1)"
    using a by (cases "getWeather env longitude latitude KEY w") simp
  have w1: "wroteHeader w1 = None" "written w1 = []"
    using g assms getWeather_writer_unchanged [of env longitude latitude KEY w] by simp_all
  have h: "handler env KEY query w = (Println (Write w1 body) msg, None)"
    using a g by (simp add: handler_def respond_def e_marshalled)
  show "snd (handler env KEY query w) = None"
    "written (fst (handler env KEY query w)) = body"
    "wroteHeader (fst (handler env KEY query w)) = Some 200"
    by (simp_all add: h Println_writer Write_fresh [OF w1])
qed

theorem handler_response_bodies_witness:
  "written (fst (handler example_env ''k'' example_query initial_state))
     = render_object [(''status'', ''''), (''condition'', ''Clear''),
         (''temperature_feel'', ''less mild'')]
   \<and> wroteHeader (fst (handler example_env ''k'' example_query initial_state)) = Some 200
   \<and> written (fst (handler example_env ''k'' Map.empty initial_state))
     = render_object [(''status'', ''error''), (''message'', ''missing query parameter: lat'')]
   \<and> wroteHeader (fst (handler example_env ''k'' Map.empty initial_state)) = Some 200
   \<and> written (fst (handler (upstream (Inr \<lparr>StatusCode = 404, ReadAll_Body = Inr ''not found''\<rparr>))
        ''k'' example_query initial_state))
     = render_object [(''status'', ''error''), (''message'', ''city not found'')]
   \<and> wroteHeader (fst (handler (upstream (Inr \<lparr>StatusCode = 404, ReadAll_Body = Inr ''not found''\<rparr>))
        ''k'' example_query initial_state)) = Some 200"
proof -
  have i: "wroteHeader initial_state = None" "written initial_state = []"
    by (simp_all add: initial_state_def)
  note t = handler_response_bodies [OF i]
  have v: "validate example_env example_query = Yields (f32_4, 0x447A0000)"
    by (simp add: validate_example_query)
  have g: "getWeather example_env 0x447A0000 f32_4 ''k'' initial_state
      = (Inr clear_payload, initial_state)"
    by (rule getWeather_example [where b = "''clear''"])
      (simp_all add: example_env_def clear_payload_def)
  have 1: "written (fst (handler example_env ''k'' example_query initial_state))
     = render_object [(''status'', ''''), (''condition'', ''Clear''),
         (''temperature_feel'', ''less mild'')]
   \<and> wroteHeader (fst (handler example_env ''k'' example_query initial_state)) = Some 200"
    using t [of example_env example_query f32_4 "0x447A0000" "''k''" clear_payload initial_state
        "\<lparr>weather_Main = ''Clear''\<rparr>" "[]"
        "render_object [(''status'', ''''), (''condition'', ''Clear''),
         (''temperature_feel'', ''less mild'')]"] v g
    by (simp add: clear_payload_def getTemperature_18_5) (simp add: example_env_def)
  have v0: "validate example_env Map.empty = Fails ''missing query parameter: lat''"
    by (simp add: validate_def)
  have 2: "written (fst (handler example_env ''k'' Map.empty initial_state))
     = render_object [(''status'', ''error''), (''message'', ''missing query parameter: lat'')]
   \<and> wroteHeader (fst (handler example_env ''k'' Map.empty initial_state)) = Some 200"
    using t [of example_env Map.empty _ _ "''k''" _ _ _ _
        "render_object [(''status'', ''error''), (''message'', ''missing query parameter: lat'')]"
        "''missing query parameter: lat''"] v0
    by (simp add: example_env_def)
  let ?env = "upstream (Inr \<lparr>StatusCode = 404, ReadAll_Body = Inr ''not found''\<rparr>)"
  have v4: "validate ?env example_query = Yields (f32_4, 0x447A0000)"
    by (simp add: validate_example_query upstream_def)
  have g4: "fst (getWeather ?env 0x447A0000 f32_4 ''k'' initial_state) = Inl ''city not found''"
    using getWeather_example_404 [of ?env "''not found''"
        "\<lparr>owmError_Code = ''404'', owmError_Message = ''city not found''\<rparr>"]
    by (simp add: upstream_def example_env_def)
  have 3: "written (fst (handler ?env ''k'' example_query initial_state))
     = render_object [(''status'', ''error''), (''message'', ''city not found'')]
   \<and> wroteHeader (fst (handler ?env ''k'' example_query initial_state)) = Some 200"
    using t [of ?env example_query f32_4 "0x447A0000" "''k''" _ _ _ _
        "render_object [(''status'', ''error''), (''message'', ''city not found'')]"
        "''city not found''"] v4 g4
    by (simp add: upstream_def example_env_def)
  from 1 2 3 show ?thesis
    by simp
qed

text \<open>
  C6: the handler indexes the first weather entry without a check: when the query validates
  and the upstream call returns a payload whose \<^verbatim>\<open>Weather\<close> is empty, the handler panics
  with an index out of range (the witness shows such a payload is reachable).
\<close>

theorem handler_empty_weather_panics:
  "validate env query = Yields (latitude, longitude)
     \<and> getWeather env longitude latitude KEY w = (Inr data, w1)
     \<and> Weather data = []
   \<longrightarrow> handler env KEY query w = (w1, Some IndexOutOfRange)"
  by (simp add: handler_def respond_def)

theorem handler_empty_weather_panics_witness:
  "handler (upstream (Inr \<lparr>StatusCode = 200, ReadAll_Body = Inr ''no weather''\<rparr>))
     ''k'' example_query initial_state = (initial_state, Some IndexOutOfRange)"
proof -
  let ?env = "upstream (Inr \<lparr>StatusCode = 200, ReadAll_Body = Inr ''no weather''\<rparr>)"
  let ?data = "\<lparr>Weather = [], owm_Main = \<lparr>Temperature = 0\<rparr>\<rparr>"
  have v: "validate ?env example_query = Yields (f32_4, 0x447A0000)"
    by (simp add: validate_example_query upstream_def)
  have g: "getWeather ?env 0x447A0000 f32_4 ''k'' initial_state = (Inr ?data, initial_state)"
    by (rule getWeather_example [where b = "''no weather''"])
      (simp_all add: upstream_def example_env_def)
  show ?thesis
    using handler_empty_weather_panics [of ?env example_query f32_4 "0x447A0000" "''k''"
        initial_state ?data initial_state] v g
    by simp
qed




end
